theory Spec2Isabelle
  imports Main "HOL-Library.Word"
begin

unbundle bit_operations_syntax

section \<open>Object representations\<close>

text \<open>
  The delegate of \<^verbatim>\<open>entt/signal/delegate.hpp\<close> keeps its payload in
  \<^verbatim>\<open>std::aligned_storage_t<sizeof(void *), alignof(void *)>\<close> and reads it back
  through \<^verbatim>\<open>reinterpret_cast\<close>, so the model works on bytes. A pointer has
  \<open>sizeof_ptr = 8\<close> bytes (an LP64 target), integers and pointers are stored least
  significant byte first, and the null pointer is the all-zero pattern.
\<close>

type_synonym byte = "8 word"
type_synonym pointer = "64 word"
type_synonym storage_type = "byte list"

definition sizeof_ptr :: nat where
  "sizeof_ptr = 8"

definition nullptr :: pointer where
  "nullptr = 0"

fun le_bytes :: "nat \<Rightarrow> 'a::len word \<Rightarrow> byte list" where
  "le_bytes 0 w = []"
| "le_bytes (Suc n) w = ucast w # le_bytes n (drop_bit 8 w)"

fun le_word :: "byte list \<Rightarrow> 'a::len word" where
  "le_word [] = 0"
| "le_word (b # bs) = ucast b OR push_bit 8 (le_word bs)"

text \<open>
  What the \<^verbatim>\<open>static_assert\<close>s of the three \<^verbatim>\<open>connect\<close> overloads ask of a
  type (\<^verbatim>\<open>sizeof\<close>, \<^verbatim>\<open>std::is_class_v\<close>, \<^verbatim>\<open>std::is_trivially_copyable_v\<close>,
  \<^verbatim>\<open>std::is_trivially_destructible_v\<close>), the name that tells one template argument
  from another, and how its objects are built and laid out:
  \<^item> \<open>construct x\<close> is the value of the object that \<^verbatim>\<open>Type{x}\<close> or
    \<^verbatim>\<open>Type{std::move(x)}\<close> builds: what the copy or move constructor makes of \<open>x\<close>.
    A trivially copyable type copies the value; a user-provided constructor does what
    its author wrote.
  \<^item> \<open>object_repr v\<close> has an entry for each of the \<open>sizeof\<close> bytes of an object: the
    byte that building an object of value \<open>v\<close> writes there, or \<open>None\<close> where it
    writes nothing (padding; the one byte of an empty class).
  \<^item> \<open>object_of\<close> reads an object of the type from \<open>sizeof\<close> bytes.
\<close>

record 'v ctype =
  type_name :: string
  sizeof :: nat
  is_class :: bool
  is_trivially_copyable :: bool
  is_trivially_destructible :: bool
  construct :: "'v \<Rightarrow> 'v"
  object_repr :: "'v \<Rightarrow> byte option list"
  object_of :: "byte list \<Rightarrow> 'v"

definition pointer_type :: "string \<Rightarrow> pointer ctype" where
  "pointer_type n =
     \<lparr>type_name = n @ ''*'', sizeof = sizeof_ptr, is_class = False,
      is_trivially_copyable = True, is_trivially_destructible = True,
      construct = (\<lambda>p. p),
      object_repr = (\<lambda>p. map Some (le_bytes sizeof_ptr p)), object_of = le_word\<rparr>"

definition void_ptr :: "pointer ctype" where
  "void_ptr = pointer_type ''void''"

text \<open>
  Writing an object at the start of a buffer: a byte that is written replaces the byte at
  its place, every other byte of the buffer stays as it was. The \<^verbatim>\<open>static_assert\<close>s
  on the size keep the object inside the storage; were the buffer shorter, the model
  would lengthen it (with zero where nothing is written).
\<close>

fun write_bytes :: "storage_type \<Rightarrow> byte option list \<Rightarrow> storage_type" where
  "write_bytes st [] = st"
| "write_bytes st (Some b # ws) = b # write_bytes (tl st) ws"
| "write_bytes st (None # ws) = (case st of [] \<Rightarrow> 0 | x # _ \<Rightarrow> x) # write_bytes (tl st) ws"

text \<open>
  \<^verbatim>\<open>new (&storage) Type{value}\<close> and \<^verbatim>\<open>new (&storage) Type{std::move(value)}\<close>: the
  constructor builds an object from the value at the start of the storage.
\<close>

definition placement_new :: "'v ctype \<Rightarrow> storage_type \<Rightarrow> 'v \<Rightarrow> storage_type" where
  "placement_new ty st v = write_bytes st (object_repr ty (construct ty v))"

text \<open>\<^verbatim>\<open>*reinterpret_cast<Type *>(&storage)\<close>, read.\<close>

definition reinterpret :: "'v ctype \<Rightarrow> storage_type \<Rightarrow> 'v" where
  "reinterpret ty st = object_of ty (take (sizeof ty) st)"

text \<open>
  The thunks bind \<^verbatim>\<open>Type &\<close> to the storage, so what the callee assigns to its first
  argument lands there; an object the callee leaves alone keeps its bytes.
\<close>

definition assign_through :: "'v ctype \<Rightarrow> storage_type \<Rightarrow> 'v \<Rightarrow> 'v \<Rightarrow> storage_type" where
  "assign_through ty st v v' = (if v' = v then st else write_bytes st (object_repr ty v'))"

text \<open>
  A description of a type is well-formed when its representation has \<open>sizeof\<close> entries,
  an object built in a buffer is read back from it whatever the buffer held, and a
  trivially copyable type copies values as they are.
\<close>

definition wf_ctype :: "'v ctype \<Rightarrow> bool" where
  "wf_ctype ty \<longleftrightarrow>
     (\<forall>v. length (object_repr ty v) = sizeof ty) \<and>
     (\<forall>v st. reinterpret ty (write_bytes st (object_repr ty v)) = v) \<and>
     (is_trivially_copyable ty \<longrightarrow> (\<forall>v. construct ty v = v))"

text \<open>The bytes of an object of value \<open>v\<close> are in the buffer: writing them changes nothing.\<close>

definition holds :: "'v ctype \<Rightarrow> storage_type \<Rightarrow> 'v \<Rightarrow> bool" where
  "holds ty st v \<longleftrightarrow> write_bytes st (object_repr ty v) = st"

section \<open>The delegate\<close>

text \<open>
  \<open>Static_assert_failed\<close>: the program does not compile. \<open>Assertion_failed\<close>:
  \<^verbatim>\<open>assert(fn)\<close> aborts. \<open>Undefined_behavior\<close>: a member is called through a pointer
  that points to no object.
\<close>

datatype error = Assertion_failed | Static_assert_failed | Undefined_behavior

text \<open>
  \<^verbatim>\<open>fn\<close> points to the function a captureless lambda converts to. Each instantiation
  of a \<^verbatim>\<open>connect\<close> template has a lambda of its own, and pointers to different
  functions differ, so the pointer is identified by the overload and its template
  arguments: \<^verbatim>\<open>connect<Function>()\<close>, \<^verbatim>\<open>connect<Candidate, Type>(Type)\<close> and
  \<^verbatim>\<open>connect<Invokable>(Invokable)\<close>.
\<close>

datatype thunk_id =
  Function_thunk string
  | Candidate_thunk string string
  | Invokable_thunk string

text \<open>
  The code a thunk calls is the user's, and it may hold a pointer or a reference to the
  very delegate that is calling it. What it does to that delegate before it returns:
  nothing, \<^verbatim>\<open>reset()\<close>, or \<^verbatim>\<open>connect<Function>()\<close> with a free function (its name and
  its \<^verbatim>\<open>std::invoke\<close>).
\<close>

datatype ('a, 'r, 's) reentry =
  No_reentry
  | Reentry_reset
  | Reentry_connect string "'a \<Rightarrow> 's \<Rightarrow> error + ('r \<times> 's)"

text \<open>
  The code at the address \<^verbatim>\<open>fn\<close> has the type \<^verbatim>\<open>Ret(storage_type &, Args...)\<close>;
  \<open>'s\<close> is the state of the rest of the program, which the bound callable may read and
  change. It gives the result, the storage as the callee left it through the reference,
  the program state, and what the callee did to the delegate behind the thunk's back.
\<close>

record ('a, 'r, 's) proto_fn =
  fn_id :: thunk_id
  fn_body :: "storage_type \<Rightarrow> 'a \<Rightarrow> 's
    \<Rightarrow> error + ('r \<times> storage_type \<times> 's \<times> ('a, 'r, 's) reentry)"

record ('a, 'r, 's) delegate =
  storage :: storage_type
  fn :: "('a, 'r, 's) proto_fn option"

text \<open>
  The non-type template arguments. \<open>function_invoke\<close> is
  \<^verbatim>\<open>std::invoke(Function, args...)\<close> and \<open>candidate_invoke\<close> is
  \<^verbatim>\<open>std::invoke(Candidate, value_or_instance, args...)\<close> at one \<^verbatim>\<open>Type\<close>, with the
  value the referenced first argument has afterwards; \<open>None\<close> where
  \<^verbatim>\<open>std::is_invocable_r_v\<close> is false. The value a candidate is bound with may be the
  address of the delegate itself (\<^verbatim>\<open>d.connect<&stop>(&d)\<close>): \<open>candidate_alias\<close> is what
  that call does to the delegate it comes from. Free functions and function objects are
  taken not to reach the delegate.
\<close>

record ('a, 'r, 's) free_function =
  function_name :: string
  function_invoke :: "('a \<Rightarrow> 's \<Rightarrow> error + ('r \<times> 's)) option"

record ('v, 'a, 'r, 's) candidate =
  candidate_name :: string
  candidate_invoke :: "('v \<Rightarrow> 'a \<Rightarrow> 's \<Rightarrow> error + ('r \<times> 'v \<times> 's)) option"
  candidate_alias :: "'v \<Rightarrow> 'a \<Rightarrow> 's \<Rightarrow> ('a, 'r, 's) reentry"

text \<open>\<^verbatim>\<open>delegate()\<close>: \<^verbatim>\<open>storage{}, fn{nullptr}\<close>, then the null marker.\<close>

definition delegate_default :: "('a, 'r, 's) delegate" where
  "delegate_default =
     \<lparr>storage = placement_new void_ptr (replicate sizeof_ptr 0) nullptr, fn = None\<rparr>"

text \<open>\<^verbatim>\<open>template<auto Function> void connect()\<close>\<close>

definition connect_function ::
  "('a, 'r, 's) free_function \<Rightarrow> ('a, 'r, 's) delegate \<Rightarrow> error + ('a, 'r, 's) delegate" where
  "connect_function f d =
     (case function_invoke f of
        None \<Rightarrow> Inl Static_assert_failed
      | Some call \<Rightarrow>
          Inr (d\<lparr>storage := placement_new void_ptr (storage d) nullptr,
                 fn := Some \<lparr>fn_id = Function_thunk (function_name f),
                             fn_body = (\<lambda>st args s.
                               case call args s of
                                 Inl e \<Rightarrow> Inl e
                               | Inr (r, s') \<Rightarrow> Inr (r, st, s', No_reentry))\<rparr>\<rparr>))"

text \<open>\<^verbatim>\<open>template<auto Candidate, typename Type> void connect(Type value_or_instance)\<close>\<close>

definition connect_value ::
  "('v, 'a, 'r, 's) candidate \<Rightarrow> 'v ctype \<Rightarrow> 'v \<Rightarrow> ('a, 'r, 's) delegate
     \<Rightarrow> error + ('a, 'r, 's) delegate" where
  "connect_value c ty value_or_instance d =
     (if \<not> sizeof ty \<le> sizeof_ptr then Inl Static_assert_failed
      else if \<not> is_trivially_copyable ty then Inl Static_assert_failed
      else if \<not> is_trivially_destructible ty then Inl Static_assert_failed
      else case candidate_invoke c of
        None \<Rightarrow> Inl Static_assert_failed
      | Some call \<Rightarrow>
          Inr (d\<lparr>storage := placement_new ty (storage d) value_or_instance,
                 fn := Some \<lparr>fn_id = Candidate_thunk (candidate_name c) (type_name ty),
                             fn_body = (\<lambda>st args s.
                               case call (reinterpret ty st) args s of
                                 Inl e \<Rightarrow> Inl e
                               | Inr (r, v', s') \<Rightarrow>
                                   Inr (r, assign_through ty st (reinterpret ty st) v', s',
                                        candidate_alias c (reinterpret ty st) args s))\<rparr>\<rparr>))"

text \<open>
  \<^verbatim>\<open>template<typename Invokable> void connect(Invokable invokable)\<close>. The call operator
  belongs to the type: \<open>call_operator\<close> is \<^verbatim>\<open>std::invoke(invokable, args...)\<close>, \<open>None\<close>
  where the type is not invocable with the signature.
\<close>

definition connect_invokable ::
  "'v ctype \<Rightarrow> ('v \<Rightarrow> 'a \<Rightarrow> 's \<Rightarrow> error + ('r \<times> 'v \<times> 's)) option \<Rightarrow> 'v
     \<Rightarrow> ('a, 'r, 's) delegate \<Rightarrow> error + ('a, 'r, 's) delegate" where
  "connect_invokable ty call_operator invokable d =
     (if \<not> sizeof ty < sizeof_ptr then Inl Static_assert_failed
      else if \<not> is_class ty then Inl Static_assert_failed
      else if \<not> is_trivially_destructible ty then Inl Static_assert_failed
      else case call_operator of
        None \<Rightarrow> Inl Static_assert_failed
      | Some call \<Rightarrow>
          Inr (d\<lparr>storage := placement_new ty (storage d) invokable,
                 fn := Some \<lparr>fn_id = Invokable_thunk (type_name ty),
                             fn_body = (\<lambda>st args s.
                               case call (reinterpret ty st) args s of
                                 Inl e \<Rightarrow> Inl e
                               | Inr (r, v', s') \<Rightarrow>
                                   Inr (r, assign_through ty st (reinterpret ty st) v', s',
                                        No_reentry))\<rparr>\<rparr>))"

text \<open>
  The three binding constructors: \<^verbatim>\<open>delegate{}\<close>, then the \<^verbatim>\<open>connect\<close>, whose
  parameter is built from the constructor's (\<^verbatim>\<open>connect<Candidate>(value_or_instance)\<close>,
  \<^verbatim>\<open>connect(std::move(invokable))\<close>).
\<close>

definition delegate_function ::
  "('a, 'r, 's) free_function \<Rightarrow> error + ('a, 'r, 's) delegate" where
  "delegate_function f = connect_function f delegate_default"

definition delegate_value ::
  "('v, 'a, 'r, 's) candidate \<Rightarrow> 'v ctype \<Rightarrow> 'v \<Rightarrow> error + ('a, 'r, 's) delegate" where
  "delegate_value c ty value_or_instance =
     connect_value c ty (construct ty value_or_instance) delegate_default"

definition delegate_invokable ::
  "'v ctype \<Rightarrow> ('v \<Rightarrow> 'a \<Rightarrow> 's \<Rightarrow> error + ('r \<times> 'v \<times> 's)) option \<Rightarrow> 'v
     \<Rightarrow> error + ('a, 'r, 's) delegate" where
  "delegate_invokable ty call_operator invokable =
     connect_invokable ty call_operator (construct ty invokable) delegate_default"

definition reset :: "('a, 'r, 's) delegate \<Rightarrow> ('a, 'r, 's) delegate" where
  "reset d = d\<lparr>storage := placement_new void_ptr (storage d) nullptr, fn := None\<rparr>"

text \<open>\<^verbatim>\<open>const void * instance() const\<close>\<close>

definition instance_of :: "('a, 'r, 's) delegate \<Rightarrow> pointer" where
  "instance_of d = reinterpret void_ptr (storage d)"

text \<open>
  \<^verbatim>\<open>Ret operator()(Args... args) const\<close>: the assertion, then the call through \<^verbatim>\<open>fn\<close>
  on the \<^verbatim>\<open>mutable\<close> storage. Where assertions are compiled out the call through a
  null \<^verbatim>\<open>fn\<close> is undefined; the model reports the failed assertion. \<^verbatim>\<open>operator()\<close>
  itself writes nothing; when it returns, the delegate is what the callee made of it:
  the storage as written through the reference, and after that the \<^verbatim>\<open>reset()\<close> or the
  \<^verbatim>\<open>connect<Function>()\<close> the callee may have called on it.
\<close>

definition operator_call ::
  "('a, 'r, 's) delegate \<Rightarrow> 'a \<Rightarrow> 's \<Rightarrow> error + ('r \<times> ('a, 'r, 's) delegate \<times> 's)" where
  "operator_call d args s =
     (case fn d of
        None \<Rightarrow> Inl Assertion_failed
      | Some f \<Rightarrow>
          (case fn_body f (storage d) args s of
             Inl e \<Rightarrow> Inl e
           | Inr (r, st', s', No_reentry) \<Rightarrow> Inr (r, d\<lparr>storage := st'\<rparr>, s')
           | Inr (r, st', s', Reentry_reset) \<Rightarrow> Inr (r, reset (d\<lparr>storage := st'\<rparr>), s')
           | Inr (r, st', s', Reentry_connect n call) \<Rightarrow>
               (case connect_function \<lparr>function_name = n, function_invoke = Some call\<rparr>
                       (d\<lparr>storage := st'\<rparr>) of
                  Inl e \<Rightarrow> Inl e
                | Inr d' \<Rightarrow> Inr (r, d', s'))))"

text \<open>What the bound callable does to the delegate in one call.\<close>

definition reentry_of ::
  "('a, 'r, 's) delegate \<Rightarrow> 'a \<Rightarrow> 's \<Rightarrow> ('a, 'r, 's) reentry" where
  "reentry_of d args s =
     (case fn d of
        None \<Rightarrow> No_reentry
      | Some f \<Rightarrow>
          (case fn_body f (storage d) args s of
             Inl e \<Rightarrow> No_reentry
           | Inr (r, st', s', act) \<Rightarrow> act))"

definition operator_bool :: "('a, 'r, 's) delegate \<Rightarrow> bool" where
  "operator_bool d \<longleftrightarrow> fn d \<noteq> None"

definition operator_eq :: "('a, 'r, 's) delegate \<Rightarrow> ('a, 'r, 's) delegate \<Rightarrow> bool" where
  "operator_eq d other \<longleftrightarrow> map_option fn_id (fn d) = map_option fn_id (fn other)"

definition operator_neq :: "('a, 'r, 's) delegate \<Rightarrow> ('a, 'r, 's) delegate \<Rightarrow> bool" where
  "operator_neq lhs rhs \<longleftrightarrow> \<not> operator_eq lhs rhs"

section \<open>Member functions and their instances\<close>

text \<open>
  Objects live in a heap, at addresses. A member function takes the object and the
  arguments and gives the result and the object afterwards; invoking it through a pointer
  that points to no object is undefined.
\<close>

type_synonym 'obj heap = "pointer \<rightharpoonup> 'obj"

definition invoke_member ::
  "('obj \<Rightarrow> 'a \<Rightarrow> 'r \<times> 'obj) \<Rightarrow> pointer \<Rightarrow> 'a \<Rightarrow> 'obj heap
     \<Rightarrow> error + ('r \<times> pointer \<times> 'obj heap)" where
  "invoke_member m p args h =
     (case h p of
        None \<Rightarrow> Inl Undefined_behavior
      | Some obj \<Rightarrow> (case m obj args of (r, obj') \<Rightarrow> Inr (r, p, h(p \<mapsto> obj'))))"

definition member_candidate ::
  "string \<Rightarrow> ('obj \<Rightarrow> 'a \<Rightarrow> 'r \<times> 'obj) \<Rightarrow> (pointer, 'a, 'r, 'obj heap) candidate" where
  "member_candidate n m =
     \<lparr>candidate_name = n, candidate_invoke = Some (invoke_member m),
      candidate_alias = (\<lambda>p args h. No_reentry)\<rparr>"

section \<open>Callers\<close>

text \<open>Running one fallible step after another.\<close>

definition and_then :: "error + 'x \<Rightarrow> ('x \<Rightarrow> error + 'y) \<Rightarrow> error + 'y" where
  "and_then x k = (case x of Inl e \<Rightarrow> Inl e | Inr v \<Rightarrow> k v)"

definition on_both :: "('x \<Rightarrow> 'y \<Rightarrow> 'z) \<Rightarrow> error + 'x \<Rightarrow> error + 'y \<Rightarrow> error + 'z" where
  "on_both k x y =
     (case x of Inl e \<Rightarrow> Inl e | Inr v \<Rightarrow> (case y of Inl e \<Rightarrow> Inl e | Inr w \<Rightarrow> Inr (k v w)))"

text \<open>What a caller sees of a call: the error, or the result and the program state.\<close>

definition outcome :: "error + ('r \<times> 'x \<times> 's) \<Rightarrow> error + ('r \<times> 's)" where
  "outcome x = (case x of Inl e \<Rightarrow> Inl e | Inr (r, _, s) \<Rightarrow> Inr (r, s))"

text \<open>The delegate a call leaves.\<close>

definition delegate_after ::
  "error + ('r \<times> ('a, 'r, 's) delegate \<times> 's) \<Rightarrow> error + ('a, 'r, 's) delegate" where
  "delegate_after x = (case x of Inl e \<Rightarrow> Inl e | Inr (_, d, _) \<Rightarrow> Inr d)"

text \<open>A caller that invokes the delegate once for each argument of a list, in order.\<close>

fun call_sequence ::
  "('a, 'r, 's) delegate \<Rightarrow> 'a list \<Rightarrow> 's \<Rightarrow> error + ('r list \<times> ('a, 'r, 's) delegate \<times> 's)" where
  "call_sequence d [] s = Inr ([], d, s)"
| "call_sequence d (a # as) s =
     (case operator_call d a s of
        Inl e \<Rightarrow> Inl e
      | Inr (r, d', s') \<Rightarrow>
          (case call_sequence d' as s' of
             Inl e \<Rightarrow> Inl e
           | Inr (rs, d'', s'') \<Rightarrow> Inr (r # rs, d'', s'')))"

section \<open>A small program that uses the delegate\<close>

text \<open>
  \<^verbatim>\<open>int add(int a, int b) { return a + b; }\<close>,
  \<^verbatim>\<open>int sub(int a, int b) { return a - b; }\<close>,
  \<^verbatim>\<open>int negate(int x) { return -x; }\<close>,
  \<^verbatim>\<open>struct Counter { int value; int increment(int n) { value += n; return value; } };\<close>,
  \<^verbatim>\<open>int scale(long factor, int x) { return factor * x; }\<close>, bound with a
  \<^verbatim>\<open>long\<close> and with an \<^verbatim>\<open>int\<close> that converts to it,
  \<^verbatim>\<open>int accumulate(int &total, int step) { total += step; return total; }\<close>.
\<close>

type_synonym cint = "32 word"

definition int_type :: "cint ctype" where
  "int_type =
     \<lparr>type_name = ''int'', sizeof = 4, is_class = False,
      is_trivially_copyable = True, is_trivially_destructible = True,
      construct = (\<lambda>x. x),
      object_repr = (\<lambda>x. map Some (le_bytes 4 x)), object_of = le_word\<rparr>"

definition long_type :: "64 word ctype" where
  "long_type =
     \<lparr>type_name = ''long'', sizeof = 8, is_class = False,
      is_trivially_copyable = True, is_trivially_destructible = True,
      construct = (\<lambda>x. x),
      object_repr = (\<lambda>x. map Some (le_bytes 8 x)), object_of = le_word\<rparr>"

definition add :: "(cint \<times> cint, cint, 's) free_function" where
  "add = \<lparr>function_name = ''add'',
          function_invoke = Some (\<lambda>(a, b) s. Inr (a + b, s))\<rparr>"

definition sub :: "(cint \<times> cint, cint, 's) free_function" where
  "sub = \<lparr>function_name = ''sub'',
          function_invoke = Some (\<lambda>(a, b) s. Inr (a - b, s))\<rparr>"

definition negate :: "(cint, cint, 's) free_function" where
  "negate = \<lparr>function_name = ''negate'', function_invoke = Some (\<lambda>x s. Inr (- x, s))\<rparr>"

definition increment :: "cint \<Rightarrow> cint \<Rightarrow> cint \<times> cint" where
  "increment v n = (v + n, v + n)"

definition counter_increment :: "(pointer, cint, cint, cint heap) candidate" where
  "counter_increment = member_candidate ''Counter::increment'' increment"

definition scale :: "64 word \<Rightarrow> cint \<Rightarrow> cint" where
  "scale factor x = ucast (factor * scast x)"

definition scale_long :: "(64 word, cint, cint, 's) candidate" where
  "scale_long = \<lparr>candidate_name = ''scale'',
                 candidate_invoke = Some (\<lambda>v x s. Inr (scale v x, v, s)),
                 candidate_alias = (\<lambda>v x s. No_reentry)\<rparr>"

definition scale_int :: "(cint, cint, cint, 's) candidate" where
  "scale_int = \<lparr>candidate_name = ''scale'',
                candidate_invoke = Some (\<lambda>v x s. Inr (scale (scast v) x, v, s)),
                candidate_alias = (\<lambda>v x s. No_reentry)\<rparr>"

definition accumulate :: "(cint, cint, cint, 's) candidate" where
  "accumulate = \<lparr>candidate_name = ''accumulate'',
                 candidate_invoke = Some (\<lambda>v x s. Inr (v + x, v + x, s)),
                 candidate_alias = (\<lambda>v x s. No_reentry)\<rparr>"

text \<open>
  Two functions that are bound with the address of the delegate and use it:
  \<^verbatim>\<open>int stop(entt::delegate<int(int)> *self, int x) { self->reset(); return x; }\<close> and
  \<^verbatim>\<open>int retarget(entt::delegate<int(int)> *self, int x)
  { self->connect<&negate>(); return x; }\<close>.
\<close>

definition stop :: "(pointer, cint, cint, 's) candidate" where
  "stop = \<lparr>candidate_name = ''stop'',
           candidate_invoke = Some (\<lambda>self x s. Inr (x, self, s)),
           candidate_alias = (\<lambda>self x s. Reentry_reset)\<rparr>"

definition retarget :: "(pointer, cint, cint, 's) candidate" where
  "retarget = \<lparr>candidate_name = ''retarget'',
               candidate_invoke = Some (\<lambda>self x s. Inr (x, self, s)),
               candidate_alias = (\<lambda>self x s. Reentry_connect ''negate'' (\<lambda>x s. Inr (- x, s)))\<rparr>"

text \<open>
  Function objects:
  \<^verbatim>\<open>struct Adder { signed char k; int operator()(int x) { return x + k; } };\<close>,
  \<^verbatim>\<open>Tracer\<close>, which is \<^verbatim>\<open>Adder\<close> with a user-provided copy constructor that
  copies \<^verbatim>\<open>k\<close>,
  \<^verbatim>\<open>Bump\<close>, which is \<^verbatim>\<open>Adder\<close> with the copy constructor
  \<^verbatim>\<open>Bump(const Bump &o) : k(o.k + 1) {}\<close>, and the empty
  \<^verbatim>\<open>struct Twice { int operator()(int x) { return 2 * x; } };\<close>, of size 1, whose
  construction writes no byte.
\<close>

definition adder_type :: "byte ctype" where
  "adder_type =
     \<lparr>type_name = ''Adder'', sizeof = 1, is_class = True,
      is_trivially_copyable = True, is_trivially_destructible = True,
      construct = (\<lambda>k. k),
      object_repr = (\<lambda>k. map Some (le_bytes 1 k)), object_of = le_word\<rparr>"

definition adder_call :: "byte \<Rightarrow> cint \<Rightarrow> 's \<Rightarrow> error + (cint \<times> byte \<times> 's)" where
  "adder_call k x s = Inr (x + scast k, k, s)"

definition tracer_type :: "byte ctype" where
  "tracer_type = adder_type\<lparr>type_name := ''Tracer'', is_trivially_copyable := False\<rparr>"

definition bump_type :: "byte ctype" where
  "bump_type = adder_type\<lparr>type_name := ''Bump'', is_trivially_copyable := False,
     construct := (\<lambda>k. k + 1)\<rparr>"

definition twice_type :: "unit ctype" where
  "twice_type =
     \<lparr>type_name = ''Twice'', sizeof = 1, is_class = True,
      is_trivially_copyable = True, is_trivially_destructible = True,
      construct = (\<lambda>u. u),
      object_repr = (\<lambda>u. [None]), object_of = (\<lambda>bs. ())\<rparr>"

definition twice_call :: "unit \<Rightarrow> cint \<Rightarrow> 's \<Rightarrow> error + (cint \<times> unit \<times> 's)" where
  "twice_call u x s = Inr (2 * x, u, s)"

section \<open>Bytes and words\<close>

lemma length_le_bytes [simp]: "length (le_bytes n w) = n"
  by (induction n arbitrary: w) simp_all

lemma le_word_le_bytes: "(le_word (le_bytes n w) :: 'a::len word) = take_bit (8 * n) w"
proof (induction n arbitrary: w)
  case 0
  show ?case by simp
next
  case (Suc n)
  show ?case
    by (simp add: Suc) (rule bit_word_eqI, auto simp add: bit_simps)
qed

lemma le_word_le_bytes_whole:
  "LENGTH('a::len) \<le> 8 * n \<Longrightarrow> (le_word (le_bytes n w) :: 'a word) = w"
  by (simp add: le_word_le_bytes take_bit_word_eq_self)

lemma le_bytes_take_bit:
  "8 * n \<le> k \<Longrightarrow> le_bytes n (take_bit k w :: 'a::len word) = le_bytes n w"
proof (induction n arbitrary: k w)
  case 0
  show ?case by simp
next
  case (Suc n)
  have h: "(ucast (take_bit k w) :: byte) = ucast w"
    using Suc.prems by (intro bit_word_eqI) (auto simp add: bit_simps)
  have "drop_bit 8 (take_bit k w) = take_bit (k - 8) (drop_bit 8 w)"
    by (simp add: drop_bit_take_bit)
  moreover have "8 * n \<le> k - 8" using Suc.prems by simp
  ultimately show ?case using Suc.IH [of "k - 8" "drop_bit 8 w"] h by simp
qed

lemma le_bytes_le_word:
  "length bs = n \<Longrightarrow> 8 * n \<le> LENGTH('a::len) \<Longrightarrow> le_bytes n (le_word bs :: 'a word) = bs"
proof (induction bs arbitrary: n)
  case Nil
  then show ?case by simp
next
  case (Cons b bs)
  then obtain m where n: "n = Suc m" and m: "length bs = m" and le: "8 * m \<le> LENGTH('a) - 8"
    and le': "8 \<le> LENGTH('a)"
    by (cases n) auto
  let ?x = "le_word bs :: 'a word"
  have hd: "(ucast (ucast b OR push_bit 8 ?x) :: byte) = b"
    using le' by (intro bit_word_eqI) (auto simp add: bit_simps)
  have tl: "drop_bit 8 (ucast b OR push_bit 8 ?x) = take_bit (LENGTH('a) - 8) ?x"
    by (intro bit_word_eqI) (auto simp add: bit_simps dest: bit_imp_le_length)
  have "le_bytes m (take_bit (LENGTH('a) - 8) ?x) = bs"
    using le_bytes_take_bit [OF le, of ?x] Cons.IH [OF m] le by simp
  then show ?case by (simp only: n le_word.simps le_bytes.simps hd tl)
qed

lemma le_bytes_zero: "le_bytes n (0 :: 'a::len word) = replicate n 0"
  by (induction n) simp_all

lemma le_bytes_numeral:
  "le_bytes (numeral k) w = ucast w # le_bytes (pred_numeral k) (drop_bit 8 w)"
  by (simp add: numeral_eq_Suc)

section \<open>Objects in the storage\<close>

lemma write_bytes_Some: "write_bytes st (map Some bs) = bs @ drop (length bs) st"
  by (induction bs arbitrary: st) (simp_all add: drop_Suc)

lemma length_write_bytes: "length (write_bytes st ws) = max (length st) (length ws)"
  by (induction st ws rule: write_bytes.induct) auto

lemma drop_write_bytes: "drop (length ws) (write_bytes st ws) = drop (length ws) st"
  by (induction st ws rule: write_bytes.induct) (simp_all add: drop_Suc)

lemma write_bytes_idem: "write_bytes (write_bytes st ws) ws = write_bytes st ws"
  by (induction st ws rule: write_bytes.induct) simp_all

lemma write_bytes_all:
  "None \<notin> set ws \<Longrightarrow> length st \<le> length ws \<Longrightarrow> write_bytes st ws = map the ws"
  by (induction st ws rule: write_bytes.induct) simp_all

lemma reinterpret_placement_new_trivial:
  "wf_ctype ty \<Longrightarrow> is_trivially_copyable ty \<Longrightarrow> reinterpret ty (placement_new ty st v) = v"
  by (simp add: wf_ctype_def placement_new_def)

lemma length_placement_new:
  "wf_ctype ty \<Longrightarrow> sizeof ty \<le> length st \<Longrightarrow> length (placement_new ty st v) = length st"
  by (simp add: wf_ctype_def placement_new_def length_write_bytes)

lemma holds_placement_new: "holds ty (placement_new ty st v) (construct ty v)"
  by (simp add: holds_def placement_new_def write_bytes_idem)

lemma reinterpret_holds: "wf_ctype ty \<Longrightarrow> holds ty st v \<Longrightarrow> reinterpret ty st = v"
  by (metis holds_def wf_ctype_def)

lemma assign_through_same [simp]: "assign_through ty st v v = st"
  by (simp add: assign_through_def)

lemma holds_assign_through: "holds ty st v \<Longrightarrow> holds ty (assign_through ty st v v') v'"
  by (simp add: assign_through_def holds_def write_bytes_idem)

lemma length_assign_through:
  "wf_ctype ty \<Longrightarrow> sizeof ty \<le> length st \<Longrightarrow> length (assign_through ty st v v') = length st"
  by (simp add: wf_ctype_def assign_through_def length_write_bytes)

lemma wf_pointer_type: "wf_ctype (pointer_type n)"
  by (simp add: wf_ctype_def pointer_type_def reinterpret_def write_bytes_Some sizeof_ptr_def
      le_word_le_bytes_whole)

lemma pointer_type_traits [simp]:
  "sizeof (pointer_type n) = sizeof_ptr"
  "is_trivially_copyable (pointer_type n)"
  "is_trivially_destructible (pointer_type n)"
  "construct (pointer_type n) = (\<lambda>p. p)"
  by (simp_all add: pointer_type_def)

lemma null_marker:
  "placement_new void_ptr st nullptr = replicate sizeof_ptr 0 @ drop sizeof_ptr st"
  using write_bytes_Some [of st "replicate sizeof_ptr 0"]
  by (simp add: placement_new_def void_ptr_def pointer_type_def nullptr_def le_bytes_zero)

lemma null_marker_whole:
  "length st = sizeof_ptr \<Longrightarrow> placement_new void_ptr st nullptr = replicate sizeof_ptr 0"
  by (simp add: null_marker)

section \<open>What the binds leave in the delegate\<close>

lemma connect_function_accepts:
  assumes "function_invoke f = Some g"
  shows "\<exists>d'. connect_function f d = Inr d'"
  using assms by (simp add: connect_function_def)

lemma connect_function_result:
  assumes "connect_function f d = Inr d'" and "function_invoke f = Some g"
  shows "storage d' = placement_new void_ptr (storage d) nullptr"
    and "map_option fn_id (fn d') = Some (Function_thunk (function_name f))"
    and "operator_call d' a s =
      (case g a s of Inl e \<Rightarrow> Inl e | Inr (r, s') \<Rightarrow> Inr (r, d', s'))"
    and "reentry_of d' a s = No_reentry"
  using assms
  by (auto simp add: connect_function_def operator_call_def reentry_of_def split: sum.splits)

lemma connect_value_accepts:
  assumes "sizeof ty \<le> sizeof_ptr" "is_trivially_copyable ty" "is_trivially_destructible ty"
    and "candidate_invoke c = Some g"
  shows "\<exists>d'. connect_value c ty v d = Inr d'"
  using assms by (simp add: connect_value_def)

lemma connect_value_thunk:
  assumes "connect_value c ty v d = Inr d'" and "candidate_invoke c = Some g"
  shows "\<exists>t. fn d' = Some t \<and> fn_id t = Candidate_thunk (candidate_name c) (type_name ty) \<and>
    (\<forall>st a s. fn_body t st a s =
      (case g (reinterpret ty st) a s of
         Inl e \<Rightarrow> Inl e
       | Inr (r, v', s') \<Rightarrow>
           Inr (r, assign_through ty st (reinterpret ty st) v', s',
                candidate_alias c (reinterpret ty st) a s)))"
  using assms by (auto simp add: connect_value_def split: if_splits)

lemma connect_value_storage:
  assumes "connect_value c ty v d = Inr d'"
  shows "storage d' = placement_new ty (storage d) v"
  using assms by (auto simp add: connect_value_def split: if_splits option.splits)

lemma connect_invokable_accepts:
  assumes "sizeof ty < sizeof_ptr" "is_class ty" "is_trivially_destructible ty"
  shows "\<exists>d'. connect_invokable ty (Some g) v d = Inr d'"
  using assms by (simp add: connect_invokable_def)

lemma connect_invokable_accepts_iff:
  "(\<exists>d'. connect_invokable ty call v d = Inr d') \<longleftrightarrow>
     sizeof ty < sizeof_ptr \<and> is_class ty \<and> is_trivially_destructible ty \<and> call \<noteq> None"
  by (auto simp add: connect_invokable_def split: option.splits)

lemma connect_invokable_thunk:
  assumes "connect_invokable ty (Some g) v d = Inr d'"
  shows "\<exists>t. fn d' = Some t \<and> fn_id t = Invokable_thunk (type_name ty) \<and>
    (\<forall>st a s. fn_body t st a s =
      (case g (reinterpret ty st) a s of
         Inl e \<Rightarrow> Inl e
       | Inr (r, v', s') \<Rightarrow>
           Inr (r, assign_through ty st (reinterpret ty st) v', s', No_reentry)))"
  using assms by (auto simp add: connect_invokable_def split: if_splits)

lemma connect_invokable_storage:
  assumes "connect_invokable ty call v d = Inr d'"
  shows "storage d' = placement_new ty (storage d) v"
  using assms by (auto simp add: connect_invokable_def split: if_splits option.splits)

text \<open>A call through a thunk that reads its payload from the storage.\<close>

lemma operator_call_payload:
  assumes t: "fn d = Some t"
    and body: "\<And>st a s. fn_body t st a s =
      (case g (reinterpret ty st) a s of
         Inl e \<Rightarrow> Inl e
       | Inr (r, v', s') \<Rightarrow>
           Inr (r, assign_through ty st (reinterpret ty st) v', s', al (reinterpret ty st) a s))"
    and v: "reinterpret ty (storage d) = v"
  shows "g v a s = Inl e \<Longrightarrow> operator_call d a s = Inl e"
    and "g v a s = Inr (r, v', s') \<Longrightarrow> al v a s = No_reentry \<Longrightarrow>
      operator_call d a s = Inr (r, d\<lparr>storage := assign_through ty (storage d) v v'\<rparr>, s')"
    and "g v a s = Inr (r, v', s') \<Longrightarrow> al v a s = Reentry_reset \<Longrightarrow>
      operator_call d a s =
        Inr (r, reset (d\<lparr>storage := assign_through ty (storage d) v v'\<rparr>), s')"
    and "g v a s = Inr (r, v', s') \<Longrightarrow> al v a s = Reentry_connect n call \<Longrightarrow>
      operator_call d a s =
        Inr (r, d\<lparr>storage := placement_new void_ptr (assign_through ty (storage d) v v') nullptr,
                  fn := Some \<lparr>fn_id = Function_thunk n,
                              fn_body = (\<lambda>st args s.
                                case call args s of
                                  Inl e \<Rightarrow> Inl e
                                | Inr (r, s') \<Rightarrow> Inr (r, st, s', No_reentry))\<rparr>\<rparr>, s')"
    and "outcome (operator_call d a s) = outcome (g v a s)"
  by (auto simp add: operator_call_def t body v outcome_def connect_function_def
      split: sum.splits reentry.splits)

lemma length_storage_default: "length (storage delegate_default) = sizeof_ptr"
  by (simp add: delegate_default_def null_marker)

lemma storage_default: "storage delegate_default = replicate sizeof_ptr 0"
  by (simp add: delegate_default_def null_marker)

lemma length_storage_connect_function:
  "connect_function f d = Inr d' \<Longrightarrow> length (storage d) = sizeof_ptr
     \<Longrightarrow> length (storage d') = sizeof_ptr"
  by (auto simp add: connect_function_def null_marker split: option.splits)

lemma length_storage_connect_value:
  "connect_value c ty v d = Inr d' \<Longrightarrow> wf_ctype ty \<Longrightarrow> length (storage d) = sizeof_ptr
     \<Longrightarrow> length (storage d') = sizeof_ptr"
  by (auto simp add: connect_value_def length_placement_new split: option.splits if_splits)

lemma length_storage_connect_invokable:
  "connect_invokable ty call v d = Inr d' \<Longrightarrow> wf_ctype ty \<Longrightarrow> length (storage d) = sizeof_ptr
     \<Longrightarrow> length (storage d') = sizeof_ptr"
  by (auto simp add: connect_invokable_def length_placement_new split: option.splits if_splits)

lemma length_storage_reset:
  "length (storage d) = sizeof_ptr \<Longrightarrow> length (storage (reset d)) = sizeof_ptr"
  by (simp add: reset_def null_marker)

lemma outcome_call_sequence_Cons:
  "outcome (call_sequence d (a # as) s) =
     (case operator_call d a s of
        Inl e \<Rightarrow> Inl e
      | Inr (r, d', s') \<Rightarrow>
          (case outcome (call_sequence d' as s') of
             Inl e \<Rightarrow> Inl e
           | Inr (rs, s'') \<Rightarrow> Inr (r # rs, s'')))"
  by (auto simp add: outcome_def split: sum.splits prod.splits)

text \<open>
  Two delegates with the same payload thunk and the same payload, in storages of pointer
  size that may differ where the payload is not, are told apart by no sequence of calls.
\<close>

lemma call_sequence_payload:
  assumes wf: "wf_ctype ty" and sz: "sizeof ty \<le> sizeof_ptr"
    and body: "\<And>st a s. fn_body t st a s =
      (case g (reinterpret ty st) a s of
         Inl e \<Rightarrow> Inl e
       | Inr (r, v', s') \<Rightarrow>
           Inr (r, assign_through ty st (reinterpret ty st) v', s', al (reinterpret ty st) a s))"
    and "fn d1 = Some t" and "fn d2 = Some t"
    and "holds ty (storage d1) v" and "holds ty (storage d2) v"
    and "length (storage d1) = sizeof_ptr" and "length (storage d2) = sizeof_ptr"
  shows "outcome (call_sequence d1 as s) = outcome (call_sequence d2 as s)"
  using assms(4-)
proof (induction as arbitrary: d1 d2 v s)
  case Nil
  show ?case by (simp add: outcome_def)
next
  case (Cons a as)
  note t1 = Cons.prems(1) and t2 = Cons.prems(2)
  have r1: "reinterpret ty (storage d1) = v"
    by (rule reinterpret_holds [OF wf Cons.prems(3)])
  have r2: "reinterpret ty (storage d2) = v"
    by (rule reinterpret_holds [OF wf Cons.prems(4)])
  note c1 = operator_call_payload [OF t1 body r1]
  note c2 = operator_call_payload [OF t2 body r2]
  show ?case
  proof (cases "g v a s")
    case (Inl e)
    then show ?thesis
      by (simp add: outcome_call_sequence_Cons c1(1) c2(1))
  next
    case (Inr x)
    obtain r v' s' where x: "g v a s = Inr (r, v', s')"
      using Inr by (cases x) auto
    let ?s1 = "assign_through ty (storage d1) v v'"
    let ?s2 = "assign_through ty (storage d2) v v'"
    have l1: "length ?s1 = sizeof_ptr"
      using length_assign_through [OF wf, of "storage d1"] sz Cons.prems(5) by simp
    have l2: "length ?s2 = sizeof_ptr"
      using length_assign_through [OF wf, of "storage d2"] sz Cons.prems(6) by simp
    show ?thesis
    proof (cases "al v a s")
      case No_reentry
      have "outcome (call_sequence (d1\<lparr>storage := ?s1\<rparr>) as s') =
            outcome (call_sequence (d2\<lparr>storage := ?s2\<rparr>) as s')"
      proof (rule Cons.IH)
        show "fn (d1\<lparr>storage := ?s1\<rparr>) = Some t" using t1 by simp
        show "fn (d2\<lparr>storage := ?s2\<rparr>) = Some t" using t2 by simp
        show "holds ty (storage (d1\<lparr>storage := ?s1\<rparr>)) v'"
          using holds_assign_through [OF Cons.prems(3)] by simp
        show "holds ty (storage (d2\<lparr>storage := ?s2\<rparr>)) v'"
          using holds_assign_through [OF Cons.prems(4)] by simp
        show "length (storage (d1\<lparr>storage := ?s1\<rparr>)) = sizeof_ptr" using l1 by simp
        show "length (storage (d2\<lparr>storage := ?s2\<rparr>)) = sizeof_ptr" using l2 by simp
      qed
      then show ?thesis
        by (simp only: outcome_call_sequence_Cons c1(2) [OF x No_reentry]
            c2(2) [OF x No_reentry] sum.case prod.case)
    next
      case Reentry_reset
      have "reset (d1\<lparr>storage := ?s1\<rparr>) = reset (d2\<lparr>storage := ?s2\<rparr>)"
        using t1 t2 l1 l2 by (simp add: reset_def null_marker_whole)
      then show ?thesis
        by (simp only: outcome_call_sequence_Cons c1(3) [OF x Reentry_reset]
            c2(3) [OF x Reentry_reset] sum.case prod.case)
    next
      case (Reentry_connect n call)
      let ?f = "Some \<lparr>fn_id = Function_thunk n,
          fn_body = (\<lambda>st args s.
            case call args s of
              Inl e \<Rightarrow> Inl e
            | Inr (r, s') \<Rightarrow> Inr (r, st, s', No_reentry))\<rparr>"
      have "d1\<lparr>storage := placement_new void_ptr ?s1 nullptr, fn := ?f\<rparr> =
            d2\<lparr>storage := placement_new void_ptr ?s2 nullptr, fn := ?f\<rparr>"
        using l1 l2 by (simp add: null_marker_whole)
      then show ?thesis
        by (simp only: outcome_call_sequence_Cons c1(4) [OF x Reentry_connect]
            c2(4) [OF x Reentry_connect] sum.case prod.case)
    qed
  qed
qed

section \<open>The example program\<close>

lemma wf_int_type: "wf_ctype int_type"
  by (simp add: wf_ctype_def int_type_def reinterpret_def write_bytes_Some le_word_le_bytes_whole)

lemma wf_long_type: "wf_ctype long_type"
  by (simp add: wf_ctype_def long_type_def reinterpret_def write_bytes_Some
      le_word_le_bytes_whole)

lemma wf_adder_type: "wf_ctype adder_type"
  by (simp add: wf_ctype_def adder_type_def reinterpret_def write_bytes_Some
      le_word_le_bytes_whole)

lemma wf_twice_type: "wf_ctype twice_type"
  by (simp add: wf_ctype_def twice_type_def)

lemma int_type_traits [simp]:
  "sizeof int_type = 4" "is_trivially_copyable int_type" "is_trivially_destructible int_type"
  "type_name int_type = ''int''" "construct int_type = (\<lambda>x. x)"
  "object_repr int_type = (\<lambda>x. map Some (le_bytes 4 x))"
  "object_of int_type = le_word"
  by (simp_all add: int_type_def)

lemma long_type_traits [simp]:
  "sizeof long_type = 8" "is_trivially_copyable long_type" "is_trivially_destructible long_type"
  "type_name long_type = ''long''" "construct long_type = (\<lambda>x. x)"
  "object_repr long_type = (\<lambda>x. map Some (le_bytes 8 x))"
  "object_of long_type = le_word"
  by (simp_all add: long_type_def)

lemma adder_type_traits [simp]:
  "sizeof adder_type = 1" "is_class adder_type" "is_trivially_destructible adder_type"
  "is_trivially_copyable adder_type"
  "type_name adder_type = ''Adder''" "construct adder_type = (\<lambda>k. k)"
  "object_repr adder_type = (\<lambda>k. map Some (le_bytes 1 k))"
  "object_of adder_type = le_word"
  by (simp_all add: adder_type_def)

lemma tracer_type_traits [simp]:
  "sizeof tracer_type = 1" "is_class tracer_type" "is_trivially_destructible tracer_type"
  "\<not> is_trivially_copyable tracer_type"
  "type_name tracer_type = ''Tracer''" "construct tracer_type = (\<lambda>k. k)"
  "object_repr tracer_type = (\<lambda>k. map Some (le_bytes 1 k))"
  "object_of tracer_type = le_word"
  by (simp_all add: tracer_type_def adder_type_def)

lemma bump_type_traits [simp]:
  "sizeof bump_type = 1" "is_class bump_type" "is_trivially_destructible bump_type"
  "\<not> is_trivially_copyable bump_type"
  "type_name bump_type = ''Bump''" "construct bump_type = (\<lambda>k. k + 1)"
  "object_repr bump_type = (\<lambda>k. map Some (le_bytes 1 k))"
  "object_of bump_type = le_word"
  by (simp_all add: bump_type_def adder_type_def)

lemma twice_type_traits [simp]:
  "sizeof twice_type = 1" "is_class twice_type" "is_trivially_destructible twice_type"
  "is_trivially_copyable twice_type"
  "type_name twice_type = ''Twice''" "construct twice_type = (\<lambda>u. u)"
  "object_repr twice_type = (\<lambda>u. [None])"
  "object_of twice_type = (\<lambda>bs. ())"
  by (simp_all add: twice_type_def)

lemma add_invoke: "function_invoke add = Some (\<lambda>(a, b) s. Inr (a + b, s))"
  by (simp add: add_def)

lemma add_sub_invoke:
  "function_invoke add = Some (\<lambda>(a, b) s. Inr (a + b, s))"
  "function_invoke sub = Some (\<lambda>(a, b) s. Inr (a - b, s))"
  "function_name add = ''add''" "function_name sub = ''sub''"
  by (simp_all add: add_def sub_def)

lemma negate_invoke: "function_invoke negate = Some (\<lambda>x s. Inr (- x, s))"
  by (simp add: negate_def)

lemma scale_long_invoke: "candidate_invoke scale_long = Some (\<lambda>v x s. Inr (scale v x, v, s))"
  by (simp add: scale_long_def)

lemma scale_int_invoke:
  "candidate_invoke scale_int = Some (\<lambda>v x s. Inr (scale (scast v) x, v, s))"
  by (simp add: scale_int_def)

lemma accumulate_invoke: "candidate_invoke accumulate = Some (\<lambda>v x s. Inr (v + x, v + x, s))"
  by (simp add: accumulate_def)

lemma counter_increment_invoke:
  "candidate_invoke counter_increment = Some (invoke_member increment)"
  by (simp add: counter_increment_def member_candidate_def)

section \<open>Binding and invoking\<close>



text \<open>
  C2. For every free function \<open>f\<close> invocable with the delegate's signature and every
  argument list \<open>a\<close>: binding the delegate to \<open>f\<close> succeeds, and invoking it with \<open>a\<close>
  does what \<open>f(a)\<close> does: the same result and the same change of the program state, or
  the same failure; the delegate is as it was.
\<close>

theorem function_bind_invoke:
  assumes "function_invoke f = Some call"
  shows "\<exists>d'. connect_function f d = Inr d' \<and>
           operator_call d' a s =
             (case call a s of Inl e \<Rightarrow> Inl e | Inr (r, s') \<Rightarrow> Inr (r, d', s'))"
  using assms
  by (auto simp add: connect_function_def operator_call_def split: sum.split)

theorem function_bind_invoke_witness:
  "\<exists>d'. connect_function add delegate_default = Inr d' \<and>
      operator_call d' (2, 3) () = Inr (5, d', ())"
  using function_bind_invoke [of add "\<lambda>(a, b) s. Inr (a + b, s)" delegate_default "(2, 3)" "()"]
  by (simp add: add_def)

text \<open>
  C3. For every free function \<open>g\<close> invocable with a \<^verbatim>\<open>Type &\<close> first and the
  delegate's arguments after it, where \<^verbatim>\<open>Type\<close> is at most pointer-sized, trivially
  copyable and trivially destructible, every value \<open>v\<close> of the type and every argument
  list \<open>a\<close>: binding the delegate to \<open>(g, v)\<close> succeeds, and invoking it with \<open>a\<close> gives
  what \<open>g(v, a)\<close> gives: the same result and program state, or the same failure.
\<close>

theorem curried_bind_invoke:
  assumes "wf_ctype ty" and "sizeof ty \<le> sizeof_ptr"
    and "is_trivially_copyable ty" and "is_trivially_destructible ty"
    and "candidate_invoke c = Some g"
  shows "\<exists>d'. connect_value c ty v d = Inr d' \<and>
           outcome (operator_call d' a s) = outcome (g v a s)"
proof -
  obtain d' where d': "connect_value c ty v d = Inr d'"
    using connect_value_accepts [OF assms(2-5)] by blast
  obtain t where t: "fn d' = Some t" and body: "\<And>st a s. fn_body t st a s =
      (case g (reinterpret ty st) a s of
         Inl e \<Rightarrow> Inl e
       | Inr (r, v', s') \<Rightarrow>
           Inr (r, assign_through ty st (reinterpret ty st) v', s',
                candidate_alias c (reinterpret ty st) a s))"
    using connect_value_thunk [OF d' assms(5)] by blast
  have "reinterpret ty (storage d') = v"
    by (simp add: connect_value_storage [OF d']
        reinterpret_placement_new_trivial [OF assms(1,3)])
  then have "outcome (operator_call d' a s) = outcome (g v a s)"
    by (rule operator_call_payload(5) [OF t body])
  with d' show ?thesis by blast
qed

theorem curried_bind_invoke_witness:
  "\<exists>d'. connect_value scale_long long_type 3 delegate_default = Inr d' \<and>
      outcome (operator_call d' 7 ()) = Inr (21, ())"
  using curried_bind_invoke [where ty = long_type and c = scale_long and v = 3
      and g = "\<lambda>v x s. Inr (scale v x, v, s)" and d = delegate_default and a = 7 and s = "()"]
    wf_long_type
  by (simp add: scale_long_def long_type_def sizeof_ptr_def outcome_def scale_def)

text \<open>
  C4, as stated, fails. \<^verbatim>\<open>connect(Invokable)\<close> takes \<^verbatim>\<open>Bump\<close>, whose copy
  constructor adds one to \<^verbatim>\<open>k\<close>: the delegate bound to \<^verbatim>\<open>Bump{3}\<close> answers 8 to the
  argument 4, the object itself 7. And binding the empty \<^verbatim>\<open>Twice{}\<close> copies no byte:
  a delegate that held the instance pointer \<open>0x7FFC12345678\<close> still holds it.
\<close>

theorem invokable_copy_counterexample:
  "outcome (and_then
     (connect_invokable bump_type (Some adder_call) 3
        (delegate_default :: (cint, cint, unit) delegate))
     (\<lambda>d. operator_call d 4 ())) = Inr (8, ()) \<and>
   outcome (adder_call 3 4 ()) = Inr (7 :: cint, ()) \<and>
   map_sum id instance_of
     (and_then (delegate_value counter_increment (pointer_type ''Counter'') 0x7FFC12345678)
        (connect_invokable twice_type (Some twice_call) ())) = Inr 0x7FFC12345678"
  by (simp add: and_then_def delegate_value_def connect_value_def connect_invokable_def
      counter_increment_def member_candidate_def sizeof_ptr_def instance_of_def reinterpret_def
      void_ptr_def pointer_type_def placement_new_def delegate_default_def nullptr_def
      le_bytes_numeral outcome_def operator_call_def adder_call_def)

text \<open>
  C4, amended. For every trivially copyable function object \<open>obj\<close> of a class type
  smaller than a pointer, trivially destructible and invocable with the delegate's
  signature, and every argument list \<open>a\<close>: binding the delegate to \<open>obj\<close> succeeds and
  builds a copy of \<open>obj\<close> at the start of the storage (the bytes that building the object
  writes are written, none for an empty object, and every other byte of the storage stays
  as it was; the object read back from the storage is \<open>obj\<close>), and invoking the delegate
  with \<open>a\<close> gives what \<open>obj(a)\<close> gives.
\<close>

theorem invokable_bind_invoke:
  assumes "wf_ctype ty" and "sizeof ty < sizeof_ptr"
    and "is_class ty" and "is_trivially_copyable ty" and "is_trivially_destructible ty"
  shows "\<exists>d'. connect_invokable ty (Some call) obj d = Inr d' \<and>
           storage d' = write_bytes (storage d) (object_repr ty obj) \<and>
           reinterpret ty (storage d') = obj \<and>
           outcome (operator_call d' a s) = outcome (call obj a s)"
proof -
  obtain d' where d': "connect_invokable ty (Some call) obj d = Inr d'"
    using connect_invokable_accepts [OF assms(2,3,5)] by blast
  obtain t where t: "fn d' = Some t" and body: "\<And>st a s. fn_body t st a s =
      (case call (reinterpret ty st) a s of
         Inl e \<Rightarrow> Inl e
       | Inr (r, v', s') \<Rightarrow>
           Inr (r, assign_through ty st (reinterpret ty st) v', s',
                (\<lambda>v a s. No_reentry) (reinterpret ty st) a s))"
    using connect_invokable_thunk [OF d'] by auto
  have copy: "construct ty obj = obj"
    using assms(1,4) by (simp add: wf_ctype_def)
  have st: "storage d' = write_bytes (storage d) (object_repr ty obj)"
    by (simp add: connect_invokable_storage [OF d'] placement_new_def copy)
  have rd: "reinterpret ty (storage d') = obj"
    by (simp add: connect_invokable_storage [OF d']
        reinterpret_placement_new_trivial [OF assms(1,4)])
  have "outcome (operator_call d' a s) = outcome (call obj a s)"
    by (rule operator_call_payload(5) [OF t body rd])
  with d' st rd show ?thesis by blast
qed

theorem invokable_bind_invoke_witness:
  "\<exists>d'. connect_invokable adder_type (Some adder_call) 3 delegate_default = Inr d' \<and>
      storage d' = [3, 0, 0, 0, 0, 0, 0, 0] \<and>
      reinterpret adder_type (storage d') = 3 \<and>
      outcome (operator_call d' 4 ()) = Inr (7, ())"
  using invokable_bind_invoke [where ty = adder_type and call = adder_call and obj = 3
      and d = delegate_default and a = 4 and s = "()"]
    wf_adder_type
  by (simp add: sizeof_ptr_def outcome_def adder_call_def delegate_default_def
      placement_new_def void_ptr_def pointer_type_def nullptr_def le_bytes_numeral)

section \<open>What the function-object bind accepts\<close>

text \<open>
  C5. The claim: a function object is accepted only when it is trivially copyable and
  trivially destructible, smaller than a pointer, of class type and invocable, and is
  rejected at compile time otherwise. The code at \<^verbatim>\<open>Tracer\<close>, a class of one byte
  with a user-provided copy constructor: \<^verbatim>\<open>connect(Invokable)\<close> accepts it, the
  delegate is bound and calls it, while \<^verbatim>\<open>connect<Candidate>(Type)\<close> refuses a value
  of the same type.
\<close>

theorem nontrivial_copy_accepted:
  "\<not> is_trivially_copyable tracer_type \<and>
   map_sum id operator_bool
     (delegate_invokable tracer_type (Some adder_call) 3 :: error + (cint, cint, unit) delegate)
     = Inr True \<and>
   outcome (and_then
     (delegate_invokable tracer_type (Some adder_call) 3 :: error + (cint, cint, unit) delegate)
     (\<lambda>d. operator_call d 4 ())) = Inr (7, ()) \<and>
   map_sum id operator_bool
     (delegate_value \<lparr>candidate_name = ''call'', candidate_invoke = Some adder_call,
          candidate_alias = (\<lambda>k x s. No_reentry)\<rparr>
        tracer_type 3 :: error + (cint, cint, unit) delegate)
     = Inl Static_assert_failed"
  by (simp add: delegate_invokable_def connect_invokable_def delegate_value_def
      connect_value_def sizeof_ptr_def operator_bool_def and_then_def outcome_def
      operator_call_def reinterpret_def placement_new_def le_bytes_numeral adder_call_def)

section \<open>Equality\<close>

text \<open>
  C6, as stated, fails: \<^verbatim>\<open>scale\<close> bound with an \<^verbatim>\<open>int\<close> and \<^verbatim>\<open>scale\<close> bound with
  a \<^verbatim>\<open>long\<close> are two delegates bound to the same curried function, and they compare
  unequal: the two instantiations of \<^verbatim>\<open>connect\<close> have a lambda each.
\<close>

theorem same_function_other_type_counterexample:
  "on_both operator_eq
     (delegate_value scale_int int_type 3 :: error + (cint, cint, unit) delegate)
     (delegate_value scale_long long_type 3) = Inr False"
  by (simp add: on_both_def delegate_value_def connect_value_def sizeof_ptr_def
      scale_int_def scale_long_def operator_eq_def)

text \<open>
  C6, amended. Equality holds exactly when the trampolines are the same pointer, and
  inequality is its negation. Two delegates bound through
  \<^verbatim>\<open>connect<Candidate>(Type)\<close> are equal exactly when the function (member or curried)
  and the type of the captured value are the same, whatever instance or value each
  captured and whatever each held before; two bound to free functions are equal exactly
  when the function is the same; two bound to function objects exactly when the type of
  the object is the same; delegates bound through different overloads are unequal. The
  storage is never compared.
\<close>

theorem equality_is_trampoline_identity:
  "(operator_eq d e \<longleftrightarrow> map_option fn_id (fn d) = map_option fn_id (fn e)) \<and>
   (operator_neq d e \<longleftrightarrow> \<not> operator_eq d e) \<and>
   (connect_value c ty v d = Inr d1 \<longrightarrow> connect_value c' ty' v' e = Inr e1 \<longrightarrow>
      (operator_eq d1 e1 \<longleftrightarrow>
         candidate_name c = candidate_name c' \<and> type_name ty = type_name ty')) \<and>
   (connect_function f d = Inr d2 \<longrightarrow> connect_function f' e = Inr e2 \<longrightarrow>
      (operator_eq d2 e2 \<longleftrightarrow> function_name f = function_name f')) \<and>
   (connect_invokable ity call obj d = Inr d3 \<longrightarrow> connect_invokable ity' call' obj' e = Inr e3 \<longrightarrow>
      (operator_eq d3 e3 \<longleftrightarrow> type_name ity = type_name ity')) \<and>
   (connect_function f d = Inr d2 \<longrightarrow> connect_value c' ty' v' e = Inr e1 \<longrightarrow> operator_neq d2 e1) \<and>
   (connect_function f d = Inr d2 \<longrightarrow> connect_invokable ity' call' obj' e = Inr e3 \<longrightarrow>
      operator_neq d2 e3) \<and>
   (connect_value c ty v d = Inr d1 \<longrightarrow> connect_invokable ity' call' obj' e = Inr e3 \<longrightarrow>
      operator_neq d1 e3) \<and>
   (operator_eq (d\<lparr>storage := st\<rparr>) (e\<lparr>storage := st'\<rparr>) \<longleftrightarrow> operator_eq d e)"
proof -
  have 1: "operator_eq d1 e1 \<longleftrightarrow>
      candidate_name c = candidate_name c' \<and> type_name ty = type_name ty'"
    if "connect_value c ty v d = Inr d1" "connect_value c' ty' v' e = Inr e1"
    using that
    by (auto simp add: connect_value_def operator_eq_def split: if_splits option.splits)
  have 2: "operator_eq d2 e2 \<longleftrightarrow> function_name f = function_name f'"
    if "connect_function f d = Inr d2" "connect_function f' e = Inr e2"
    using that
    by (auto simp add: connect_function_def operator_eq_def split: option.splits)
  have 3: "operator_eq d3 e3 \<longleftrightarrow> type_name ity = type_name ity'"
    if "connect_invokable ity call obj d = Inr d3" "connect_invokable ity' call' obj' e = Inr e3"
    using that
    by (auto simp add: connect_invokable_def operator_eq_def split: if_splits option.splits)
  have 4: "operator_eq (d\<lparr>storage := st\<rparr>) (e\<lparr>storage := st'\<rparr>) \<longleftrightarrow> operator_eq d e"
    by (simp add: operator_eq_def)
  have 5: "operator_neq d2 e1"
    if "connect_function f d = Inr d2" "connect_value c' ty' v' e = Inr e1"
    using that
    by (auto simp add: connect_function_def connect_value_def operator_eq_def operator_neq_def
        split: if_splits option.splits)
  have 6: "operator_neq d2 e3"
    if "connect_function f d = Inr d2" "connect_invokable ity' call' obj' e = Inr e3"
    using that
    by (auto simp add: connect_function_def connect_invokable_def operator_eq_def
        operator_neq_def split: if_splits option.splits)
  have 7: "operator_neq d1 e3"
    if "connect_value c ty v d = Inr d1" "connect_invokable ity' call' obj' e = Inr e3"
    using that
    by (auto simp add: connect_value_def connect_invokable_def operator_eq_def
        operator_neq_def split: if_splits option.splits)
  have 0: "operator_eq d e \<longleftrightarrow> map_option fn_id (fn d) = map_option fn_id (fn e)"
    by (simp add: operator_eq_def)
  have 00: "operator_neq d e \<longleftrightarrow> \<not> operator_eq d e"
    by (simp add: operator_neq_def)
  from 0 00 1 2 3 4 5 6 7 show ?thesis by blast
qed

theorem equality_is_trampoline_identity_witness:
  "(\<exists>(d1 :: (cint, cint, unit) delegate) e1.
      delegate_value accumulate int_type 1 = Inr d1 \<and>
      delegate_value accumulate int_type 2 = Inr e1 \<and>
      instance_of d1 = 1 \<and> instance_of e1 = 2 \<and> operator_eq d1 e1) \<and>
   (\<exists>(d2 :: (cint \<times> cint, cint, unit) delegate) e2.
      delegate_function add = Inr d2 \<and> delegate_function sub = Inr e2 \<and>
      \<not> operator_eq d2 e2 \<and> operator_neq d2 e2)"
proof -
  let ?e = "delegate_default :: (cint, cint, unit) delegate"
  let ?e' = "delegate_default :: (cint \<times> cint, cint, unit) delegate"
  obtain d1 where d1: "connect_value accumulate int_type 1 ?e = Inr d1"
    using connect_value_accepts [OF _ _ _ accumulate_invoke, of int_type]
    by (auto simp add: sizeof_ptr_def)
  obtain e1 where e1: "connect_value accumulate int_type 2 ?e = Inr e1"
    using connect_value_accepts [OF _ _ _ accumulate_invoke, of int_type]
    by (auto simp add: sizeof_ptr_def)
  obtain d2 where d2: "connect_function add ?e' = Inr d2"
    using connect_function_accepts [OF add_sub_invoke(1)] by blast
  obtain e2 where e2: "connect_function sub ?e' = Inr e2"
    using connect_function_accepts [OF add_sub_invoke(2)] by blast
  have st: "storage ?e = [0, 0, 0, 0, 0, 0, 0, 0]"
    by (simp add: delegate_default_def placement_new_def void_ptr_def
        pointer_type_def sizeof_ptr_def nullptr_def le_bytes_numeral)
  have i1: "instance_of d1 = 1"
    using connect_value_storage [OF d1]
    by (simp add: instance_of_def reinterpret_def void_ptr_def pointer_type_def sizeof_ptr_def
        placement_new_def st le_bytes_numeral)
  have i2: "instance_of e1 = 2"
    using connect_value_storage [OF e1]
    by (simp add: instance_of_def reinterpret_def void_ptr_def pointer_type_def sizeof_ptr_def
        placement_new_def st le_bytes_numeral)
  note t = equality_is_trampoline_identity [where d = ?e and e = ?e and c = accumulate
      and c' = accumulate and ty = int_type and ty' = int_type and v = 1 and v' = 2
      and ?d1.0 = d1 and ?e1.0 = e1, THEN conjunct2, THEN conjunct2, THEN conjunct1,
      THEN mp, THEN mp, OF d1 e1]
  note u = equality_is_trampoline_identity [where d = ?e' and e = ?e' and f = add
      and f' = sub and ?d2.0 = d2 and ?e2.0 = e2, THEN conjunct2, THEN conjunct2,
      THEN conjunct2, THEN conjunct1, THEN mp, THEN mp, OF d2 e2]
  note n = equality_is_trampoline_identity [where d = d2 and e = e2, THEN conjunct2,
      THEN conjunct1]
  have "operator_eq d1 e1" using t by simp
  moreover have "\<not> operator_eq d2 e2" using u by (simp add: add_sub_invoke)
  moreover have "operator_neq d2 e2" using n u by (simp add: add_sub_invoke)
  ultimately show ?thesis
    using d1 e1 d2 e2 i1 i2 by (simp add: delegate_value_def delegate_function_def)
qed

section \<open>Truthiness\<close>

text \<open>
  C7. A default-constructed delegate converts to false; a delegate that any of the three
  binds has accepted converts to true, whatever it held before; after \<open>reset\<close> it converts
  to false; the conversion is true exactly when the trampoline is not null.
\<close>

theorem bool_lifecycle:
  "\<not> operator_bool (delegate_default :: ('a, 'r, 's) delegate) \<and>
   (connect_function f (d :: ('a, 'r, 's) delegate) = Inr d1 \<longrightarrow> operator_bool d1) \<and>
   (connect_value c ty v d = Inr d2 \<longrightarrow> operator_bool d2) \<and>
   (connect_invokable ty' call obj d = Inr d3 \<longrightarrow> operator_bool d3) \<and>
   \<not> operator_bool (reset d) \<and>
   (operator_bool d \<longleftrightarrow> fn d \<noteq> None)"
  by (auto simp add: operator_bool_def delegate_default_def reset_def connect_function_def
      connect_value_def connect_invokable_def split: option.splits if_splits)

theorem bool_lifecycle_witness:
  "\<not> operator_bool (delegate_default :: (cint \<times> cint, cint, unit) delegate) \<and>
   (\<exists>d1. connect_function add (delegate_default :: (cint \<times> cint, cint, unit) delegate) = Inr d1 \<and>
      operator_bool d1 \<and> \<not> operator_bool (reset d1)) \<and>
   (\<exists>d2. connect_value scale_long long_type 3 (delegate_default :: (cint, cint, unit) delegate) = Inr d2 \<and>
      operator_bool d2 \<and> \<not> operator_bool (reset d2)) \<and>
   (\<exists>d3. connect_invokable adder_type (Some adder_call) 3
       (delegate_default :: (cint, cint, unit) delegate) = Inr d3 \<and>
      operator_bool d3 \<and> \<not> operator_bool (reset d3))"
proof -
  let ?e = "delegate_default :: (cint \<times> cint, cint, unit) delegate"
  let ?e' = "delegate_default :: (cint, cint, unit) delegate"
  obtain d1 where d1: "connect_function add ?e = Inr d1"
    using connect_function_accepts [OF add_invoke] by blast
  obtain d2 where d2: "connect_value scale_long long_type 3 ?e' = Inr d2"
    using connect_value_accepts [OF _ _ _ scale_long_invoke, of long_type]
    by (auto simp add: sizeof_ptr_def)
  obtain d3 where d3: "connect_invokable adder_type (Some adder_call) 3 ?e' = Inr d3"
    using connect_invokable_accepts [of adder_type adder_call]
    by (auto simp add: sizeof_ptr_def)
  note after_reset = bool_lifecycle [THEN conjunct2, THEN conjunct2, THEN conjunct2,
      THEN conjunct2, THEN conjunct1]
  have "\<not> operator_bool ?e"
    by (rule bool_lifecycle [THEN conjunct1])
  moreover have "operator_bool d1 \<and> \<not> operator_bool (reset d1)"
    using bool_lifecycle [THEN conjunct2, THEN conjunct1, THEN mp, OF d1] after_reset
    by (rule conjI)
  moreover have "operator_bool d2 \<and> \<not> operator_bool (reset d2)"
    using bool_lifecycle [THEN conjunct2, THEN conjunct2, THEN conjunct1, THEN mp, OF d2]
      after_reset
    by (rule conjI)
  moreover have "operator_bool d3 \<and> \<not> operator_bool (reset d3)"
    using bool_lifecycle [THEN conjunct2, THEN conjunct2, THEN conjunct2, THEN conjunct1,
        THEN mp, OF d3] after_reset
    by (rule conjI)
  ultimately show ?thesis using d1 d2 d3 by blast
qed

section \<open>Rebinding and reset\<close>

text \<open>
  C8, as stated, fails: a delegate bound to \<^verbatim>\<open>Counter::increment\<close> on the instance at
  \<open>0x7FFC12345678\<close> and then rebound to \<^verbatim>\<open>scale\<close> with the \<^verbatim>\<open>int\<close> 5 keeps the upper
  four bytes of the pointer behind the four bytes of the \<^verbatim>\<open>int\<close>, and \<open>instance()\<close>
  tells it from a fresh delegate given the same bind.
\<close>

theorem rebind_residue_counterexample:
  "map_sum id instance_of
     (and_then (delegate_value counter_increment (pointer_type ''Counter'') 0x7FFC12345678)
        (connect_value scale_int int_type 5)) = Inr 0x7FFC00000005 \<and>
   map_sum id instance_of
     (delegate_value scale_int int_type 5 :: error + (cint, cint, cint heap) delegate) = Inr 5"
  by (simp add: and_then_def delegate_value_def connect_value_def counter_increment_def
      member_candidate_def scale_int_def sizeof_ptr_def instance_of_def reinterpret_def
      void_ptr_def pointer_type_def placement_new_def delegate_default_def
      nullptr_def le_bytes_numeral)

lemma rebind_function:
  assumes "length (storage d) = sizeof_ptr"
  shows "connect_function f d = delegate_function f"
  using assms
  by (simp add: connect_function_def delegate_function_def null_marker_whole
      length_storage_default delegate_default_def split: option.split)

lemma reset_restores:
  assumes "length (storage d) = sizeof_ptr"
  shows "reset d = delegate_default"
  using assms
  by (simp add: reset_def delegate_default_def null_marker_whole)

lemma rebind_value:
  assumes len: "length (storage d) = sizeof_ptr" and wf: "wf_ctype ty"
    and d1: "connect_value c ty v d = Inr d1"
  shows "\<exists>d2. connect_value c ty v delegate_default = Inr d2 \<and> fn d1 = fn d2 \<and>
      storage d1 = write_bytes (storage d) (object_repr ty v) \<and>
      storage d2 = write_bytes (replicate sizeof_ptr 0) (object_repr ty v) \<and>
      reinterpret ty (storage d1) = v \<and> reinterpret ty (storage d2) = v \<and>
      (\<forall>as s. outcome (call_sequence d1 as s) = outcome (call_sequence d2 as s)) \<and>
      (operator_bool d1 \<longleftrightarrow> operator_bool d2) \<and>
      (\<forall>x. operator_eq d1 x \<longleftrightarrow> operator_eq d2 x) \<and>
      (length (object_repr ty v) = sizeof_ptr \<and> None \<notin> set (object_repr ty v) \<longrightarrow> d1 = d2)"
proof -
  from d1 obtain g where g: "candidate_invoke c = Some g"
    and ok: "sizeof ty \<le> sizeof_ptr" "is_trivially_copyable ty" "is_trivially_destructible ty"
    by (auto simp add: connect_value_def split: if_splits option.splits)
  obtain d2 where d2: "connect_value c ty v delegate_default = Inr d2"
    using connect_value_accepts [OF ok g] by blast
  have copy: "construct ty v = v"
    using wf ok(2) by (simp add: wf_ctype_def)
  have f: "fn d1 = fn d2"
    using d1 d2 by (auto simp add: connect_value_def split: if_splits option.splits)
  have s1: "storage d1 = write_bytes (storage d) (object_repr ty v)"
    by (simp add: connect_value_storage [OF d1] placement_new_def copy)
  have s2: "storage d2 = write_bytes (replicate sizeof_ptr 0) (object_repr ty v)"
    by (simp add: connect_value_storage [OF d2] placement_new_def copy storage_default)
  have h1: "holds ty (storage d1) v"
    using holds_placement_new [of ty "storage d" v]
    by (simp add: connect_value_storage [OF d1] copy)
  have h2: "holds ty (storage d2) v"
    using holds_placement_new [of ty "storage delegate_default" v]
    by (simp add: connect_value_storage [OF d2] copy)
  note r1 = reinterpret_holds [OF wf h1] and r2 = reinterpret_holds [OF wf h2]
  have l1: "length (storage d1) = sizeof_ptr"
    by (rule length_storage_connect_value [OF d1 wf len])
  have l2: "length (storage d2) = sizeof_ptr"
    by (rule length_storage_connect_value [OF d2 wf length_storage_default])
  obtain t where t: "fn d1 = Some t" and body: "\<And>st a s. fn_body t st a s =
      (case g (reinterpret ty st) a s of
         Inl e \<Rightarrow> Inl e
       | Inr (r, v', s') \<Rightarrow>
           Inr (r, assign_through ty st (reinterpret ty st) v', s',
                candidate_alias c (reinterpret ty st) a s))"
    using connect_value_thunk [OF d1 g] by blast
  have t2: "fn d2 = Some t" using f t by simp
  have call: "outcome (call_sequence d1 as s) = outcome (call_sequence d2 as s)" for as s
    by (rule call_sequence_payload [OF wf ok(1) body t t2 h1 h2 l1 l2])
  have b: "operator_bool d1 \<longleftrightarrow> operator_bool d2"
    by (simp add: operator_bool_def f)
  have e: "operator_eq d1 x \<longleftrightarrow> operator_eq d2 x" for x
    by (simp add: operator_eq_def f)
  have whole: "d1 = d2"
    if "length (object_repr ty v) = sizeof_ptr \<and> None \<notin> set (object_repr ty v)"
  proof -
    have "storage d1 = storage d2"
      using that len by (simp add: s1 s2 write_bytes_all)
    with f show ?thesis by simp
  qed
  from d2 f s1 s2 r1 r2 call b e whole show ?thesis by blast
qed

lemma rebind_invokable:
  assumes len: "length (storage d) = sizeof_ptr" and wf: "wf_ctype ty"
    and d1: "connect_invokable ty call obj d = Inr d1"
  shows "\<exists>d2. connect_invokable ty call obj delegate_default = Inr d2 \<and> fn d1 = fn d2 \<and>
      storage d1 = write_bytes (storage d) (object_repr ty (construct ty obj)) \<and>
      storage d2 = write_bytes (replicate sizeof_ptr 0) (object_repr ty (construct ty obj)) \<and>
      reinterpret ty (storage d1) = construct ty obj \<and>
      reinterpret ty (storage d2) = construct ty obj \<and>
      (\<forall>as s. outcome (call_sequence d1 as s) = outcome (call_sequence d2 as s)) \<and>
      (operator_bool d1 \<longleftrightarrow> operator_bool d2) \<and>
      (\<forall>x. operator_eq d1 x \<longleftrightarrow> operator_eq d2 x)"
proof -
  from d1 obtain g where g: "call = Some g"
    and ok: "sizeof ty < sizeof_ptr" "is_class ty" "is_trivially_destructible ty"
    by (auto simp add: connect_invokable_def split: if_splits option.splits)
  obtain d2 where d2: "connect_invokable ty (Some g) obj delegate_default = Inr d2"
    using connect_invokable_accepts [OF ok] by blast
  note d1' = d1 [unfolded g]
  have f: "fn d1 = fn d2"
    using d1 d2 g by (auto simp add: connect_invokable_def split: if_splits)
  have s1: "storage d1 = write_bytes (storage d) (object_repr ty (construct ty obj))"
    by (simp add: connect_invokable_storage [OF d1] placement_new_def)
  have s2: "storage d2 = write_bytes (replicate sizeof_ptr 0) (object_repr ty (construct ty obj))"
    by (simp add: connect_invokable_storage [OF d2] placement_new_def storage_default)
  have h1: "holds ty (storage d1) (construct ty obj)"
    using holds_placement_new [of ty "storage d" obj]
    by (simp add: connect_invokable_storage [OF d1])
  have h2: "holds ty (storage d2) (construct ty obj)"
    using holds_placement_new [of ty "storage delegate_default" obj]
    by (simp add: connect_invokable_storage [OF d2])
  note r1 = reinterpret_holds [OF wf h1] and r2 = reinterpret_holds [OF wf h2]
  have l1: "length (storage d1) = sizeof_ptr"
    by (rule length_storage_connect_invokable [OF d1 wf len])
  have l2: "length (storage d2) = sizeof_ptr"
    by (rule length_storage_connect_invokable [OF d2 wf length_storage_default])
  obtain t where t: "fn d1 = Some t" and body: "\<And>st a s. fn_body t st a s =
      (case g (reinterpret ty st) a s of
         Inl e \<Rightarrow> Inl e
       | Inr (r, v', s') \<Rightarrow>
           Inr (r, assign_through ty st (reinterpret ty st) v', s',
                (\<lambda>v a s. No_reentry) (reinterpret ty st) a s))"
    using connect_invokable_thunk [OF d1'] by auto
  have t2: "fn d2 = Some t" using f t by simp
  have sz: "sizeof ty \<le> sizeof_ptr" using ok(1) by simp
  have call: "outcome (call_sequence d1 as s) = outcome (call_sequence d2 as s)" for as s
    by (rule call_sequence_payload [OF wf sz body t t2 h1 h2 l1 l2])
  have b: "operator_bool d1 \<longleftrightarrow> operator_bool d2"
    by (simp add: operator_bool_def f)
  have e: "operator_eq d1 x \<longleftrightarrow> operator_eq d2 x" for x
    by (simp add: operator_eq_def f)
  from d2 f s1 s2 r1 r2 call b e show ?thesis
    unfolding g by blast
qed

text \<open>
  C8, amended. For every delegate in any prior state and every bind: the trampoline is
  the one a freshly default-constructed delegate gets from the same bind; the storage is
  overwritten at the bytes that building the new payload writes (all of it for the null
  marker of a free-function bind and for a pointer, four bytes for an \<^verbatim>\<open>int\<close>, none for
  an empty function object) and keeps every other byte of the previous binding, where
  the fresh delegate has zeros; the payload read back, truthiness, equality and every
  later sequence of invocations are those of the fresh delegate. The whole state, and
  with it \<open>instance()\<close>, is that of the fresh delegate after a free-function bind and
  after a bind whose payload fills the storage. \<open>reset\<close> restores exactly the empty state.
\<close>

theorem rebind_overwrites:
  assumes "length (storage d) = sizeof_ptr" and "wf_ctype ty" and "wf_ctype ity"
  shows "connect_function f d = delegate_function f \<and>
    (connect_value c ty v d = Inr d1 \<longrightarrow>
      (\<exists>d2. connect_value c ty v delegate_default = Inr d2 \<and> fn d1 = fn d2 \<and>
        storage d1 = write_bytes (storage d) (object_repr ty v) \<and>
        storage d2 = write_bytes (replicate sizeof_ptr 0) (object_repr ty v) \<and>
        reinterpret ty (storage d1) = v \<and> reinterpret ty (storage d2) = v \<and>
        (\<forall>as s. outcome (call_sequence d1 as s) = outcome (call_sequence d2 as s)) \<and>
        (operator_bool d1 \<longleftrightarrow> operator_bool d2) \<and>
        (\<forall>x. operator_eq d1 x \<longleftrightarrow> operator_eq d2 x) \<and>
        (length (object_repr ty v) = sizeof_ptr \<and> None \<notin> set (object_repr ty v)
           \<longrightarrow> d1 = d2))) \<and>
    (connect_invokable ity call obj d = Inr d3 \<longrightarrow>
      (\<exists>d4. connect_invokable ity call obj delegate_default = Inr d4 \<and> fn d3 = fn d4 \<and>
        storage d3 = write_bytes (storage d) (object_repr ity (construct ity obj)) \<and>
        storage d4 = write_bytes (replicate sizeof_ptr 0) (object_repr ity (construct ity obj)) \<and>
        reinterpret ity (storage d3) = construct ity obj \<and>
        reinterpret ity (storage d4) = construct ity obj \<and>
        (\<forall>as s. outcome (call_sequence d3 as s) = outcome (call_sequence d4 as s)) \<and>
        (operator_bool d3 \<longleftrightarrow> operator_bool d4) \<and>
        (\<forall>x. operator_eq d3 x \<longleftrightarrow> operator_eq d4 x))) \<and>
    reset d = delegate_default"
  using rebind_function [OF assms(1)] rebind_value [OF assms(1,2)]
    rebind_invokable [OF assms(1,3)] reset_restores [OF assms(1)]
  by blast

lemma storage_bound_pointer:
  assumes "connect_value c (pointer_type n) p delegate_default = Inr d"
  shows "storage d = le_bytes sizeof_ptr p"
  using write_bytes_Some [of "replicate sizeof_ptr 0" "le_bytes sizeof_ptr p"]
  by (simp add: connect_value_storage [OF assms] placement_new_def storage_default
      pointer_type_def)

theorem rebind_overwrites_witness:
  "\<exists>(d :: (cint, cint, cint heap) delegate).
     delegate_value counter_increment (pointer_type ''Counter'') 0x7FFC12345678 = Inr d \<and>
     length (storage d) = sizeof_ptr \<and>
     connect_function negate d = delegate_function negate \<and>
     (\<exists>d1. connect_value scale_int int_type 5 d = Inr d1 \<and>
       (\<exists>d2. connect_value scale_int int_type 5 delegate_default = Inr d2 \<and> fn d1 = fn d2 \<and>
         storage d1 = [5, 0, 0, 0, 0xFC, 0x7F, 0, 0] \<and>
         storage d2 = [5, 0, 0, 0, 0, 0, 0, 0] \<and>
         reinterpret int_type (storage d1) = 5 \<and> reinterpret int_type (storage d2) = 5 \<and>
         (\<forall>as s. outcome (call_sequence d1 as s) = outcome (call_sequence d2 as s)) \<and>
         (operator_bool d1 \<longleftrightarrow> operator_bool d2) \<and>
         (\<forall>x. operator_eq d1 x \<longleftrightarrow> operator_eq d2 x))) \<and>
     (\<exists>d3. connect_invokable twice_type (Some twice_call) () d = Inr d3 \<and>
       (\<exists>d4. connect_invokable twice_type (Some twice_call) () delegate_default = Inr d4 \<and>
         fn d3 = fn d4 \<and>
         storage d3 = [0x78, 0x56, 0x34, 0x12, 0xFC, 0x7F, 0, 0] \<and>
         storage d4 = [0, 0, 0, 0, 0, 0, 0, 0] \<and>
         (\<forall>as s. outcome (call_sequence d3 as s) = outcome (call_sequence d4 as s)) \<and>
         (operator_bool d3 \<longleftrightarrow> operator_bool d4) \<and>
         (\<forall>x. operator_eq d3 x \<longleftrightarrow> operator_eq d4 x))) \<and>
     reset d = delegate_default"
proof -
  obtain d :: "(cint, cint, cint heap) delegate"
    where d: "connect_value counter_increment (pointer_type ''Counter'') 0x7FFC12345678
        delegate_default = Inr d"
    using connect_value_accepts [OF _ _ _ counter_increment_invoke, of "pointer_type ''Counter''"]
    by auto
  have d': "delegate_value counter_increment (pointer_type ''Counter'') 0x7FFC12345678 = Inr d"
    using d by (simp add: delegate_value_def)
  have len: "length (storage d) = sizeof_ptr"
    by (rule length_storage_connect_value [OF d wf_pointer_type length_storage_default])
  have sd: "storage d = [0x78, 0x56, 0x34, 0x12, 0xFC, 0x7F, 0, 0]"
    by (simp add: storage_bound_pointer [OF d] sizeof_ptr_def le_bytes_numeral)
  have zeros: "replicate sizeof_ptr (0 :: byte) = [0, 0, 0, 0, 0, 0, 0, 0]"
    by (simp add: sizeof_ptr_def numeral_eq_Suc)
  obtain d1 where d1: "connect_value scale_int int_type 5 d = Inr d1"
    using connect_value_accepts [OF _ _ _ scale_int_invoke, of int_type]
    by (auto simp add: sizeof_ptr_def)
  obtain d3 where d3: "connect_invokable twice_type (Some twice_call) () d = Inr d3"
    using connect_invokable_accepts [of twice_type twice_call]
    by (auto simp add: sizeof_ptr_def)
  note t = rebind_overwrites [OF len wf_int_type wf_twice_type, where f = negate
      and c = scale_int and v = 5 and ?d1.0 = d1
      and call = "Some twice_call" and obj = "()" and ?d3.0 = d3]
  note t1 = t [THEN conjunct2, THEN conjunct1, THEN mp, OF d1]
  note t2 = t [THEN conjunct2, THEN conjunct2, THEN conjunct1, THEN mp, OF d3]
  from t1 have b: "\<exists>d2. connect_value scale_int int_type 5 delegate_default = Inr d2 \<and>
      fn d1 = fn d2 \<and>
      storage d1 = [5, 0, 0, 0, 0xFC, 0x7F, 0, 0] \<and>
      storage d2 = [5, 0, 0, 0, 0, 0, 0, 0] \<and>
      reinterpret int_type (storage d1) = 5 \<and> reinterpret int_type (storage d2) = 5 \<and>
      (\<forall>as s. outcome (call_sequence d1 as s) = outcome (call_sequence d2 as s)) \<and>
      (operator_bool d1 \<longleftrightarrow> operator_bool d2) \<and>
      (\<forall>x. operator_eq d1 x \<longleftrightarrow> operator_eq d2 x)"
    by (simp add: sd zeros le_bytes_numeral) blast
  from t2 have c: "\<exists>d4. connect_invokable twice_type (Some twice_call) () delegate_default = Inr d4 \<and>
      fn d3 = fn d4 \<and>
      storage d3 = [0x78, 0x56, 0x34, 0x12, 0xFC, 0x7F, 0, 0] \<and>
      storage d4 = [0, 0, 0, 0, 0, 0, 0, 0] \<and>
      (\<forall>as s. outcome (call_sequence d3 as s) = outcome (call_sequence d4 as s)) \<and>
      (operator_bool d3 \<longleftrightarrow> operator_bool d4) \<and>
      (\<forall>x. operator_eq d3 x \<longleftrightarrow> operator_eq d4 x)"
    by (simp add: sd zeros)
  show ?thesis
    using d' len d1 d3 t [THEN conjunct1] b c
      t [THEN conjunct2, THEN conjunct2, THEN conjunct2]
    by blast
qed

section \<open>The instance pointer\<close>

text \<open>
  C9. For every delegate, \<open>instance()\<close> is the pointer whose bytes are the pointer-sized
  storage, whatever binding wrote them; it is a plain read that cannot fail and touches
  no object. After binding a free function, and after \<open>reset\<close>, it is the null pointer.
\<close>

theorem instance_reads_storage:
  "instance_of d = le_word (take sizeof_ptr (storage d)) \<and>
   (length (storage d) = sizeof_ptr \<longrightarrow> le_bytes sizeof_ptr (instance_of d) = storage d) \<and>
   (connect_function f d = Inr d' \<longrightarrow> instance_of d' = nullptr) \<and>
   instance_of (reset d) = nullptr"
proof -
  have 1: "instance_of d = le_word (take sizeof_ptr (storage d))"
    by (simp add: instance_of_def reinterpret_def void_ptr_def pointer_type_def)
  have 2: "le_bytes sizeof_ptr (instance_of d) = storage d" if "length (storage d) = sizeof_ptr"
    using that le_bytes_le_word [of "storage d" sizeof_ptr, where ?'a = 64]
    by (simp add: 1) (simp add: sizeof_ptr_def)
  have null: "reinterpret void_ptr (placement_new void_ptr st nullptr) = nullptr" for st
    unfolding void_ptr_def
    by (rule reinterpret_placement_new_trivial [OF wf_pointer_type pointer_type_traits(2)])
  have 3: "instance_of d' = nullptr" if "connect_function f d = Inr d'"
    using that null [of "storage d"]
    by (auto simp add: connect_function_def instance_of_def split: option.splits)
  have 4: "instance_of (reset d) = nullptr"
    using null [of "storage d"] by (simp add: reset_def instance_of_def)
  from 1 2 3 4 show ?thesis by blast
qed

theorem instance_reads_storage_witness:
  "\<exists>(d :: (cint, cint, unit) delegate) d'.
     delegate_value scale_long long_type 0x1122334455667788 = Inr d \<and>
     length (storage d) = sizeof_ptr \<and>
     instance_of d = 0x1122334455667788 \<and>
     le_bytes sizeof_ptr (instance_of d) = storage d \<and>
     connect_function negate d = Inr d' \<and> instance_of d' = nullptr \<and>
     instance_of (reset d) = nullptr"
proof -
  obtain d :: "(cint, cint, unit) delegate"
    where d: "connect_value scale_long long_type 0x1122334455667788 delegate_default = Inr d"
    using connect_value_accepts [OF _ _ _ scale_long_invoke, of long_type]
    by (auto simp add: sizeof_ptr_def)
  have len: "length (storage d) = sizeof_ptr"
    by (rule length_storage_connect_value [OF d wf_long_type length_storage_default])
  obtain d' where d': "connect_function negate d = Inr d'"
    using connect_function_accepts [OF negate_invoke] by blast
  have "storage d = le_bytes 8 (0x1122334455667788 :: 64 word)"
    using write_bytes_Some [of "replicate sizeof_ptr 0" "le_bytes 8 (0x1122334455667788 :: 64 word)"]
    by (simp add: connect_value_storage [OF d] placement_new_def storage_default sizeof_ptr_def)
  then have val: "instance_of d = 0x1122334455667788"
    using instance_reads_storage [of d, THEN conjunct1]
    by (simp add: sizeof_ptr_def le_word_le_bytes_whole)
  note rest = instance_reads_storage [of d negate d', THEN conjunct2]
  show ?thesis
    using d len d' val rest [THEN conjunct1, THEN mp, OF len]
      rest [THEN conjunct2, THEN conjunct1, THEN mp, OF d'] rest [THEN conjunct2, THEN conjunct2]
    by (simp add: delegate_value_def)
qed

section \<open>What a call leaves of the delegate\<close>

lemma reentry_of_connect_value:
  assumes "connect_value c ty v d = Inr d'" and "candidate_invoke c = Some g"
    and "wf_ctype ty" and "g v a s = Inr x"
  shows "reentry_of d' a s = candidate_alias c v a s"
proof -
  obtain t where t: "fn d' = Some t" and body: "\<And>st a s. fn_body t st a s =
      (case g (reinterpret ty st) a s of
         Inl e \<Rightarrow> Inl e
       | Inr (r, v', s') \<Rightarrow>
           Inr (r, assign_through ty st (reinterpret ty st) v', s',
                candidate_alias c (reinterpret ty st) a s))"
    using connect_value_thunk [OF assms(1,2)] by blast
  have "is_trivially_copyable ty"
    using assms(1) by (auto simp add: connect_value_def split: if_splits)
  then have "reinterpret ty (storage d') = v"
    by (simp add: connect_value_storage [OF assms(1)]
        reinterpret_placement_new_trivial [OF assms(3)])
  then show ?thesis
    using assms(4) by (cases x) (simp add: reentry_of_def t body)
qed

lemma reentry_of_connect_invokable:
  assumes "connect_invokable ty call obj d = Inr d'"
  shows "reentry_of d' a s = No_reentry"
  using assms
  by (auto simp add: connect_invokable_def reentry_of_def split: if_splits option.splits sum.splits)

text \<open>
  C10, as stated, fails: \<^verbatim>\<open>stop\<close>, bound with the address of the delegate, resets it,
  and the delegate that was truthy before the call is falsy after it; \<^verbatim>\<open>retarget\<close>
  connects it to \<^verbatim>\<open>negate\<close>, and the delegate after the call is not equal to the one
  before.
\<close>

theorem reentrant_call_counterexample:
  "map_sum id operator_bool
     (delegate_value stop (pointer_type ''delegate'') 0x2000
        :: error + (cint, cint, unit) delegate) = Inr True \<and>
   map_sum id operator_bool
     (delegate_after (and_then
        (delegate_value stop (pointer_type ''delegate'') 0x2000
           :: error + (cint, cint, unit) delegate)
        (\<lambda>d. operator_call d 7 ()))) = Inr False \<and>
   on_both operator_eq
     (delegate_after (and_then
        (delegate_value retarget (pointer_type ''delegate'') 0x2000
           :: error + (cint, cint, unit) delegate)
        (\<lambda>d. operator_call d 7 ())))
     (delegate_value retarget (pointer_type ''delegate'') 0x2000) = Inr False"
  by (simp add: delegate_value_def connect_value_def stop_def retarget_def operator_bool_def
      operator_eq_def delegate_after_def and_then_def on_both_def operator_call_def reset_def
      connect_function_def)

text \<open>
  C10, amended. For every bound delegate and every argument list: a call that returns,
  and during which the bound callable does not itself reset or rebind the delegate
  through a pointer or reference to it, leaves the trampoline as it was, so the delegate
  is still truthy and equal to what it was before the call; \<^verbatim>\<open>operator()\<close> writes
  nothing itself, and the storage is all of the delegate that can differ afterwards.
\<close>

theorem call_keeps_trampoline:
  assumes "operator_bool d" and "reentry_of d a s = No_reentry"
    and "operator_call d a s = Inr (r, d', s')"
  shows "fn d' = fn d \<and> operator_bool d' \<and> operator_eq d' d \<and>
         (\<exists>st'. d' = d\<lparr>storage := st'\<rparr>)"
proof -
  from assms(2,3) obtain st' where "d' = d\<lparr>storage := st'\<rparr>"
    by (auto simp add: operator_call_def reentry_of_def split: option.splits sum.splits)
  with assms(1) show ?thesis
    by (auto simp add: operator_bool_def operator_eq_def)
qed

theorem call_keeps_trampoline_witness:
  "\<exists>(d :: (cint, cint, unit) delegate) d'.
     delegate_value accumulate int_type 10 = Inr d \<and> operator_bool d \<and>
     reentry_of d 5 () = No_reentry \<and>
     operator_call d 5 () = Inr (15, d', ()) \<and>
     fn d' = fn d \<and> operator_bool d' \<and> operator_eq d' d \<and> (\<exists>st'. d' = d\<lparr>storage := st'\<rparr>)"
proof -
  obtain d :: "(cint, cint, unit) delegate"
    where d: "connect_value accumulate int_type 10 delegate_default = Inr d"
    using connect_value_accepts [OF _ _ _ accumulate_invoke, of int_type]
    by (auto simp add: sizeof_ptr_def)
  obtain t where t: "fn d = Some t" and body: "\<And>st a s. fn_body t st a s =
      (case (\<lambda>v x s. Inr (v + x, v + x, s)) (reinterpret int_type st) a s of
         Inl e \<Rightarrow> Inl e
       | Inr (r, v', s') \<Rightarrow>
           Inr (r, assign_through int_type st (reinterpret int_type st) v', s',
                candidate_alias accumulate (reinterpret int_type st) a s))"
    using connect_value_thunk [OF d accumulate_invoke] by blast
  have rd: "reinterpret int_type (storage d) = 10"
    by (simp add: connect_value_storage [OF d]
        reinterpret_placement_new_trivial [OF wf_int_type])
  have b: "operator_bool d"
    using t by (simp add: operator_bool_def)
  have al: "reentry_of d 5 () = No_reentry"
    using reentry_of_connect_value [OF d accumulate_invoke wf_int_type,
        where a = 5 and s = "()" and x = "(15, 15, ())"]
    by (simp add: accumulate_def)
  have call: "operator_call d 5 () =
      Inr (15, d\<lparr>storage := assign_through int_type (storage d) 10 15\<rparr>, ())"
    using operator_call_payload(2) [OF t body rd,
        where a = 5 and s = "()" and r = 15 and v' = 15 and s' = "()"]
    by (simp add: accumulate_def)
  show ?thesis
    using d b al call call_keeps_trampoline [OF b al call]
    by (simp add: delegate_value_def)
qed

end
